theory Spec2Isabelle
  imports Complex_Main
begin

section \<open>Python and NumPy values\<close>

text \<open>
  The repository is Python on top of NumPy, gsd and freud.  Exceptions are values of
  \<open>pyerr\<close>, named after the Python exception class that the statement raises; a function
  that may raise returns \<open>pyerr + 'a\<close>, with \<open>Inl\<close> for the exception.

  Floating-point numbers are idealised to \<open>real\<close>: rounding and overflow are not modelled.
  The one floating-point event that changes the shape of a result, a NumPy division by
  zero (which yields \<open>inf\<close> or \<open>nan\<close> with a warning and raises nothing), is kept: a NumPy
  scalar is a \<open>real option\<close>, \<open>None\<close> standing for a value that is not a finite number.
\<close>

datatype pyerr = IndexError | ValueError | ZeroDivisionError | UnboundLocalError

type_synonym npfloat = "real option"

definition np_div :: "real \<Rightarrow> real \<Rightarrow> npfloat" where
  "np_div x y = (if y = 0 then None else Some (x / y))"

definition np_add_scalar :: "real \<Rightarrow> npfloat \<Rightarrow> npfloat" where
  "np_add_scalar c v = (case v of None \<Rightarrow> None | Some x \<Rightarrow> Some (c + x))"

text \<open>
  Elementwise binary operation on two one-dimensional arrays, with NumPy's broadcasting:
  equal lengths combine pointwise, a length-one array is stretched, anything else raises
  \<open>ValueError\<close> (operands could not be broadcast together).
\<close>

definition np_binop :: "(real \<Rightarrow> real \<Rightarrow> real) \<Rightarrow> real list \<Rightarrow> real list \<Rightarrow> pyerr + real list" where
  "np_binop f xs ys =
     (if length xs = length ys then Inr (map2 f xs ys)
      else if length xs = 1 then Inr (map (f (hd xs)) ys)
      else if length ys = 1 then Inr (map (\<lambda>x. f x (hd ys)) xs)
      else Inl ValueError)"

text \<open>
  \<open>np.linspace(start, stop, num)\<close> with \<open>endpoint=True\<close>: \<open>arange(0, num)\<close> is scaled by
  \<open>step = (stop - start) / (num - 1)\<close> (through \<open>y / (num - 1) * delta\<close> when the step is zero),
  shifted by \<open>start\<close>, and the last entry is overwritten with \<open>stop\<close>.
\<close>

definition linspace :: "real \<Rightarrow> real \<Rightarrow> nat \<Rightarrow> real list" where
  "linspace start stop num =
     (let dv = num - 1;
          delta = stop - start;
          y0 = map real [0..<num];
          y1 = (if 0 < dv then
                  (let step = delta / real dv
                   in if step = 0 then map (\<lambda>v. v / real dv * delta) y0
                      else map (\<lambda>v. v * step) y0)
                else map (\<lambda>v. v * delta) y0);
          y2 = map (\<lambda>v. v + start) y1
      in if 1 < num then y2[num - 1 := stop] else y2)"

text \<open>
  \<open>np.trapz(y, dx=d)\<close> on a one-dimensional array:
  \<open>(d * (y[1:] + y[:-1]) / 2.0).sum()\<close>.
\<close>

definition trapz :: "real list \<Rightarrow> real \<Rightarrow> real" where
  "trapz y d = sum_list (map2 (\<lambda>a b. d * (a + b) / 2) (tl y) (butlast y))"

section \<open>The transform \<open>rdf2sq\<close>\<close>

text \<open>
  \<open>rdf2sq(r, rdf, Qmin, Qmax, \<rho>)\<close> of \<open>utility/rdf_analysis.py\<close> (the tutorial's and the
  paper's copies are the same text).  \<open>r\<close> and \<open>rdf\<close> are one-dimensional NumPy arrays.

  The integrand of one grid point is \<open>r * (rdf - 1) * np.sin(q[j] * r)\<close>.
\<close>

definition integrand :: "real list \<Rightarrow> real list \<Rightarrow> real \<Rightarrow> pyerr + real list" where
  "integrand r rdf qj =
     (case np_binop (*) r (map (\<lambda>g. g - 1) rdf) of
        Inl e \<Rightarrow> Inl e
      | Inr a \<Rightarrow> np_binop (*) a (map (\<lambda>x. sin (qj * x)) r))"

definition sq_entry :: "real list \<Rightarrow> real list \<Rightarrow> real \<Rightarrow> real \<Rightarrow> real \<Rightarrow> pyerr + npfloat" where
  "sq_entry r rdf dr \<rho> qj =
     (case integrand r rdf qj of
        Inl e \<Rightarrow> Inl e
      | Inr y \<Rightarrow> Inr (np_add_scalar 1 (np_div (4 * pi * \<rho> * trapz y dr) qj)))"

text \<open>The loop \<open>for j in range(len(q))\<close>: the first exception ends it.\<close>

fun sq_loop :: "real list \<Rightarrow> real list \<Rightarrow> real \<Rightarrow> real \<Rightarrow> real list \<Rightarrow> pyerr + npfloat list" where
  "sq_loop r rdf dr \<rho> [] = Inr []"
| "sq_loop r rdf dr \<rho> (qj # qs) =
     (case sq_entry r rdf dr \<rho> qj of
        Inl e \<Rightarrow> Inl e
      | Inr s \<Rightarrow> (case sq_loop r rdf dr \<rho> qs of
                    Inl e \<Rightarrow> Inl e
                  | Inr ss \<Rightarrow> Inr (s # ss)))"

definition rdf2sq :: "real list \<Rightarrow> real list \<Rightarrow> real \<Rightarrow> real \<Rightarrow> real \<Rightarrow> pyerr + (real list \<times> npfloat list)" where
  "rdf2sq r rdf Qmin Qmax \<rho> =
     (let q = linspace Qmin Qmax 1000
      in if length r < 2 then Inl IndexError
         else (let dr = r ! 1 - r ! 0
               in case sq_loop r rdf dr \<rho> q of
                    Inl e \<Rightarrow> Inl e
                  | Inr sq \<Rightarrow> Inr (q, sq)))"

section \<open>Single-precision values of the simulation box\<close>

text \<open>
  gsd stores the box as six \<open>float32\<close> numbers.  The default search radius is computed with
  \<open>np.nextafter(..., dtype=np.float32)\<close>, a step on the grid of single-precision numbers,
  so the box entries are kept as what they are: a finite \<open>float32\<close> is \<open>mant * 2 ^ expo\<close>
  with \<open>|mant| < 2 ^ 24\<close> and \<open>-149 \<le> expo \<le> 104\<close>, the mantissa filling all 24 bits
  unless the exponent is the least one (the subnormal numbers and the first binade).
  Infinities and NaN are not modelled.
\<close>

record f32 =
  mant :: int
  expo :: int

definition f32_ok :: "f32 \<Rightarrow> bool" where
  "f32_ok x = (\<bar>mant x\<bar> < 2 ^ 24 \<and> - 149 \<le> expo x \<and> expo x \<le> 104
               \<and> (expo x = - 149 \<or> 2 ^ 23 \<le> \<bar>mant x\<bar>))"

definition f32_val :: "f32 \<Rightarrow> real" where
  "f32_val x = real_of_int (mant x) * 2 powi (expo x)"

text \<open>\<open>np.max\<close> of two entries.\<close>

definition f32_max :: "f32 \<Rightarrow> f32 \<Rightarrow> f32" where
  "f32_max a b = (if f32_val a < f32_val b then b else a)"

text \<open>Nearest integer to \<open>m / 2\<close>, ties to even: the rounding of a halved subnormal.\<close>

definition half_even :: "int \<Rightarrow> int" where
  "half_even m =
     (if even m then m div 2
      else (let lo = (m - 1) div 2 in if even lo then lo else lo + 1))"

text \<open>
  \<open>x * 0.5\<close> rounded to \<open>float32\<close>: exact (one exponent step down) unless the exponent is
  already the least one.
\<close>

definition f32_half :: "f32 \<Rightarrow> f32" where
  "f32_half x =
     (if - 149 < expo x then x\<lparr>expo := expo x - 1\<rparr>
      else x\<lparr>mant := half_even (mant x)\<rparr>)"

text \<open>
  \<open>np.nextafter(x, 0, dtype=np.float32)\<close>: the neighbour of \<open>x\<close> on the \<open>float32\<close> grid
  in the direction of zero; zero stays.
\<close>

definition nextafter_zero :: "f32 \<Rightarrow> f32" where
  "nextafter_zero x =
     (if mant x = 0 then x
      else if \<bar>mant x\<bar> = 2 ^ 23 \<and> - 149 < expo x
        then \<lparr>mant = sgn (mant x) * (2 ^ 24 - 1), expo = expo x - 1\<rparr>
      else x\<lparr>mant := mant x - sgn (mant x)\<rparr>)"

section \<open>Trajectory frames and the freud collaborators\<close>

record box6 =
  Lx :: f32
  Ly :: f32
  Lz :: f32
  xy :: f32
  xz :: f32
  yz :: f32

type_synonym vec3 = "real \<times> real \<times> real"

text \<open>
  A frame as gsd hands it out: \<open>snap.configuration.box\<close>, \<open>snap.particles.N\<close>,
  \<open>snap.particles.types\<close>,
  \<open>snap.particles.typeid\<close>, \<open>snap.particles.position\<close> and \<open>snap.bonds.group\<close>.
\<close>

record snapshot =
  box :: box6
  particles_N :: nat
  types :: "string list"
  typeid :: "nat list"
  position :: "vec3 list"
  bonds_group :: "(nat \<times> nat) list"

text \<open>
  A freud neighbour list: one entry per pair, holding the query point index, the point
  index and the distance.
\<close>

type_synonym nlist = "(nat \<times> nat \<times> real) list"

text \<open>
  freud is an external library: its operations are parameters of the model.  \<open>'rdf\<close> is
  the state of a \<open>freud.density.RDF\<close> object.
  \<^item> \<open>rdf_new bins r_max r_min\<close> is \<open>freud.density.RDF(bins=bins, r_max=r_max, r_min=r_min)\<close>;
  \<^item> \<open>rdf_compute rdf box points nlist\<close> is \<open>rdf.compute(aq, neighbors=nlist, reset=False)\<close>
    for the query object \<open>aq\<close> built from \<open>(box, points)\<close>;
  \<^item> \<open>aabb_query box points query_points r_max exclude_ii\<close> is
    \<open>AABBQuery.from_system((box, points)).query(query_points, {...}).toNeighborList()\<close>;
  \<^item> \<open>compute_distances box ps qs\<close> is \<open>box.compute_distances(ps, qs)\<close>;
  \<^item> \<open>nlist_from_arrays nq np qis pts ds\<close> is \<open>NeighborList.from_arrays(nq, np, qis, pts, ds)\<close>;
  \<^item> \<open>cluster_compute box points nlist\<close> is \<open>Cluster().compute(system, neighbors)\<close>
    followed by reading \<open>cluster_idx\<close>.
\<close>

record 'rdf freud =
  rdf_new :: "int \<Rightarrow> real \<Rightarrow> real \<Rightarrow> pyerr + 'rdf"
  rdf_compute :: "'rdf \<Rightarrow> box6 \<Rightarrow> vec3 list \<Rightarrow> nlist \<Rightarrow> pyerr + 'rdf"
  aabb_query :: "box6 \<Rightarrow> vec3 list \<Rightarrow> vec3 list \<Rightarrow> real \<Rightarrow> bool \<Rightarrow> pyerr + nlist"
  compute_distances :: "box6 \<Rightarrow> vec3 list \<Rightarrow> vec3 list \<Rightarrow> pyerr + real list"
  nlist_from_arrays :: "nat \<Rightarrow> nat \<Rightarrow> nat list \<Rightarrow> nat list \<Rightarrow> real list \<Rightarrow> pyerr + nlist"
  cluster_compute :: "box6 \<Rightarrow> vec3 list \<Rightarrow> nlist \<Rightarrow> pyerr + nat list"

section \<open>Python indexing\<close>

text \<open>\<open>xs[0]\<close>: \<open>IndexError\<close> on an empty sequence.\<close>

definition first_frame :: "'a list \<Rightarrow> pyerr + 'a" where
  "first_frame xs = (case xs of [] \<Rightarrow> Inl IndexError | x # _ \<Rightarrow> Inr x)"

text \<open>
  \<open>xs[start:stop]\<close>: gsd turns the slice into \<open>range(*slice.indices(len(xs)))\<close>; a negative
  bound counts from the end, and every bound is clipped to the sequence.
\<close>

definition slice_index :: "int \<Rightarrow> int \<Rightarrow> int" where
  "slice_index n i = (if i < 0 then max (i + n) 0 else min i n)"

definition py_slice :: "'a list \<Rightarrow> int \<Rightarrow> int option \<Rightarrow> 'a list" where
  "py_slice xs start stop =
     (let n = int (length xs);
          s = slice_index n start;
          e = (case stop of None \<Rightarrow> n | Some j \<Rightarrow> slice_index n j)
      in take (nat (e - s)) (drop (nat s) xs))"

text \<open>\<open>names.index(name)\<close>: the first position of \<open>name\<close>, \<open>ValueError\<close> when it is absent.\<close>

fun list_index :: "'a list \<Rightarrow> 'a \<Rightarrow> pyerr + nat" where
  "list_index [] a = Inl ValueError"
| "list_index (x # xs) a =
     (if x = a then Inr 0
      else (case list_index xs a of Inl e \<Rightarrow> Inl e | Inr i \<Rightarrow> Inr (Suc i)))"

text \<open>
  \<open>arr[mask]\<close> with a boolean mask: the entries at the true positions; \<open>IndexError\<close> when
  the mask and the array differ in length.
\<close>

definition np_mask :: "'a list \<Rightarrow> bool list \<Rightarrow> pyerr + 'a list" where
  "np_mask xs msk =
     (if length xs = length msk then Inr (map fst (filter snd (zip xs msk)))
      else Inl IndexError)"

text \<open>\<open>arr[idx]\<close> with an array of unsigned indices: \<open>IndexError\<close> when one is out of range.\<close>

definition np_take :: "'a list \<Rightarrow> nat list \<Rightarrow> pyerr + 'a list" where
  "np_take xs idx =
     (if list_all (\<lambda>i. i < length xs) idx then Inr (map (\<lambda>i. xs ! i) idx)
      else Inl IndexError)"

section \<open>The accumulator \<open>intermolecular_rdf\<close>\<close>

text \<open>
  \<open>intermolecular_rdf(gsdfile, A_name, B_name, start, stop, r_max, r_min, bins,
  exclude_bonded)\<close> of the tutorial's \<open>utility/rdf_analysis.py\<close>.  The trajectory is the
  sequence of frames that \<open>gsd.hoomd.open(gsdfile)\<close> yields; a file that cannot be opened
  or read is outside the model.
\<close>

text \<open>
  \<open>snap_molecule_indices(snap)\<close>: the bonds of the frame become a neighbour list, and
  freud's clustering labels every particle with its molecule.
\<close>

definition snap_molecule_indices :: "'rdf freud \<Rightarrow> snapshot \<Rightarrow> pyerr + nat list" where
  "snap_molecule_indices fr snap =
     (let query_point_indices = map fst (bonds_group snap);
          point_indices = map snd (bonds_group snap)
      in case np_take (position snap) query_point_indices of
           Inl e \<Rightarrow> Inl e
         | Inr ps \<Rightarrow>
       (case np_take (position snap) point_indices of
           Inl e \<Rightarrow> Inl e
         | Inr qs \<Rightarrow>
       (case compute_distances fr (box snap) ps qs of
           Inl e \<Rightarrow> Inl e
         | Inr distances \<Rightarrow>
       (case nlist_from_arrays fr (particles_N snap) (particles_N snap)
               query_point_indices point_indices distances of
           Inl e \<Rightarrow> Inl e
         | Inr nl \<Rightarrow> cluster_compute fr (box snap) (position snap) nl))))"

text \<open>\<open>np.max(snap.configuration.box[:3])\<close>: the largest of the three edge lengths.\<close>

definition largest_edge :: "snapshot \<Rightarrow> f32" where
  "largest_edge snap = f32_max (f32_max (Lx (box snap)) (Ly (box snap))) (Lz (box snap))"

text \<open>
  The search radius when \<open>r_max\<close> is \<open>None\<close>:
  \<open>np.nextafter(np.max(snap.configuration.box[:3]) * 0.5, 0, dtype=np.float32)\<close>.
\<close>

definition default_r_max :: "snapshot \<Rightarrow> f32" where
  "default_r_max snap = nextafter_zero (f32_half (largest_edge snap))"

definition r_max_used :: "snapshot \<Rightarrow> real option \<Rightarrow> real" where
  "r_max_used snap r_max =
     (case r_max of None \<Rightarrow> f32_val (default_r_max snap) | Some v \<Rightarrow> v)"

text \<open>\<open>snap.particles.typeid == snap.particles.types.index(name)\<close>.\<close>

definition type_mask :: "snapshot \<Rightarrow> string \<Rightarrow> pyerr + bool list" where
  "type_mask snap name =
     (case list_index (types snap) name of
        Inl e \<Rightarrow> Inl e
      | Inr i \<Rightarrow> Inr (map (\<lambda>t. t = i) (typeid snap)))"

text \<open>
  What the statements before the frame loop leave behind (lines 29 to 40): the search
  radius, the fresh RDF object, the two species masks and, with \<open>exclude_bonded\<close>, the
  molecule labels of the two species.
\<close>

record 'rdf prepared =
  p_r_max :: real
  p_rdf :: 'rdf
  p_type_A :: "bool list"
  p_type_B :: "bool list"
  p_molecules :: "(nat list \<times> nat list) option"

definition molecule_labels ::
  "'rdf freud \<Rightarrow> snapshot \<Rightarrow> bool list \<Rightarrow> bool list \<Rightarrow> bool \<Rightarrow> pyerr + (nat list \<times> nat list) option" where
  "molecule_labels fr snap type_A type_B exclude_bonded =
     (if exclude_bonded then
        (case snap_molecule_indices fr snap of
           Inl e \<Rightarrow> Inl e
         | Inr molecules \<Rightarrow>
        (case np_mask molecules type_A of
           Inl e \<Rightarrow> Inl e
         | Inr molecules_A \<Rightarrow>
        (case np_mask molecules type_B of
           Inl e \<Rightarrow> Inl e
         | Inr molecules_B \<Rightarrow> Inr (Some (molecules_A, molecules_B)))))
      else Inr None)"

definition rdf_setup ::
  "'rdf freud \<Rightarrow> snapshot list \<Rightarrow> string \<Rightarrow> string \<Rightarrow> real option \<Rightarrow> real \<Rightarrow> int \<Rightarrow> bool
     \<Rightarrow> pyerr + 'rdf prepared" where
  "rdf_setup fr trajectory A_name B_name r_max r_min bins exclude_bonded =
     (case first_frame trajectory of
        Inl e \<Rightarrow> Inl e
      | Inr snap \<Rightarrow>
     (let rm = r_max_used snap r_max
      in case rdf_new fr bins rm r_min of
        Inl e \<Rightarrow> Inl e
      | Inr rdf \<Rightarrow>
     (case type_mask snap A_name of
        Inl e \<Rightarrow> Inl e
      | Inr type_A \<Rightarrow>
     (case type_mask snap B_name of
        Inl e \<Rightarrow> Inl e
      | Inr type_B \<Rightarrow>
     (case molecule_labels fr snap type_A type_B exclude_bonded of
        Inl e \<Rightarrow> Inl e
      | Inr mols \<Rightarrow>
          Inr \<lparr>p_r_max = rm, p_rdf = rdf, p_type_A = type_A, p_type_B = type_B,
               p_molecules = mols\<rparr>)))))"

text \<open>
  The pairs of one frame (lines 42 to 54): the positions of the two species and the
  neighbour query, with \<open>exclude_ii\<close> when both names are the same.
\<close>

definition frame_pairs ::
  "'rdf freud \<Rightarrow> 'rdf prepared \<Rightarrow> string \<Rightarrow> string \<Rightarrow> snapshot \<Rightarrow> pyerr + (vec3 list \<times> nlist)" where
  "frame_pairs fr p A_name B_name snap =
     (case np_mask (position snap) (p_type_A p) of
        Inl e \<Rightarrow> Inl e
      | Inr A_pos \<Rightarrow>
     (case (if A_name = B_name then Inr (A_pos, True)
            else (case np_mask (position snap) (p_type_B p) of
                    Inl e \<Rightarrow> Inl e
                  | Inr B_pos \<Rightarrow> Inr (B_pos, False))) of
        Inl e \<Rightarrow> Inl e
      | Inr (B_pos, exclude_ii) \<Rightarrow>
     (case aabb_query fr (box snap) A_pos B_pos (p_r_max p) exclude_ii of
        Inl e \<Rightarrow> Inl e
      | Inr nl \<Rightarrow> Inr (A_pos, nl))))"

text \<open>
  The exclusion of one frame (lines 57 to 59): a pair stays when the molecule label of its
  point (species A) differs from the label of its query point (species B).
\<close>

definition filter_bonded :: "nat list \<Rightarrow> nat list \<Rightarrow> nlist \<Rightarrow> pyerr + nlist" where
  "filter_bonded molecules_A molecules_B nl =
     (case np_take molecules_A (map (\<lambda>(qi, pt, d). pt) nl) of
        Inl e \<Rightarrow> Inl e
      | Inr indices_A \<Rightarrow>
     (case np_take molecules_B (map (\<lambda>(qi, pt, d). qi) nl) of
        Inl e \<Rightarrow> Inl e
      | Inr indices_B \<Rightarrow>
          Inr (map fst (filter snd (zip nl (map2 (\<lambda>a b. a \<noteq> b) indices_A indices_B))))))"

text \<open>
  The state of the loop: the RDF object and the two local variables \<open>pre_filter\<close> and
  \<open>post_filter\<close>, which are unbound (\<open>None\<close>) until a frame assigns them.  The molecule
  labels are locals of the same kind, bound before the loop only with \<open>exclude_bonded\<close>.
\<close>

type_synonym 'rdf loop_state = "'rdf \<times> (nat \<times> nat) option"

definition frame_step ::
  "'rdf freud \<Rightarrow> 'rdf prepared \<Rightarrow> string \<Rightarrow> string \<Rightarrow> bool \<Rightarrow> 'rdf loop_state \<Rightarrow> snapshot
     \<Rightarrow> pyerr + 'rdf loop_state" where
  "frame_step fr p A_name B_name exclude_bonded st snap =
     (case frame_pairs fr p A_name B_name snap of
        Inl e \<Rightarrow> Inl e
      | Inr (A_pos, nl) \<Rightarrow>
     (case (if exclude_bonded then
              (case p_molecules p of
                 None \<Rightarrow> Inl UnboundLocalError
               | Some (molecules_A, molecules_B) \<Rightarrow>
                   (case filter_bonded molecules_A molecules_B nl of
                      Inl e \<Rightarrow> Inl e
                    | Inr nl' \<Rightarrow> Inr (nl', Some (length nl, length nl'))))
            else Inr (nl, snd st)) of
        Inl e \<Rightarrow> Inl e
      | Inr (nl', counts) \<Rightarrow>
     (case rdf_compute fr (fst st) (box snap) A_pos nl' of
        Inl e \<Rightarrow> Inl e
      | Inr rdf' \<Rightarrow> Inr (rdf', counts))))"

text \<open>The loop \<open>for snap in trajectory[start:stop]\<close> over the selected frames.\<close>

fun frame_loop ::
  "'rdf freud \<Rightarrow> 'rdf prepared \<Rightarrow> string \<Rightarrow> string \<Rightarrow> bool \<Rightarrow> 'rdf loop_state \<Rightarrow> snapshot list
     \<Rightarrow> pyerr + 'rdf loop_state" where
  "frame_loop fr p A_name B_name exclude_bonded st [] = Inr st"
| "frame_loop fr p A_name B_name exclude_bonded st (snap # snaps) =
     (case frame_step fr p A_name B_name exclude_bonded st snap of
        Inl e \<Rightarrow> Inl e
      | Inr st' \<Rightarrow> frame_loop fr p A_name B_name exclude_bonded st' snaps)"

text \<open>
  \<open>normalization = post_filter / pre_filter if exclude_bonded else 1\<close>: reading an unbound
  local raises \<open>UnboundLocalError\<close>, dividing by zero raises \<open>ZeroDivisionError\<close>.
\<close>

definition normalization :: "bool \<Rightarrow> (nat \<times> nat) option \<Rightarrow> pyerr + real" where
  "normalization exclude_bonded counts =
     (if exclude_bonded then
        (case counts of
           None \<Rightarrow> Inl UnboundLocalError
         | Some (pre_filter, post_filter) \<Rightarrow>
             if pre_filter = 0 then Inl ZeroDivisionError
             else Inr (real post_filter / real pre_filter))
      else Inr 1)"

definition intermolecular_rdf ::
  "'rdf freud \<Rightarrow> snapshot list \<Rightarrow> string \<Rightarrow> string \<Rightarrow> int \<Rightarrow> int option \<Rightarrow> real option \<Rightarrow> real \<Rightarrow> int
     \<Rightarrow> bool \<Rightarrow> pyerr + ('rdf \<times> real)" where
  "intermolecular_rdf fr trajectory A_name B_name start stop r_max r_min bins exclude_bonded =
     (case rdf_setup fr trajectory A_name B_name r_max r_min bins exclude_bonded of
        Inl e \<Rightarrow> Inl e
      | Inr p \<Rightarrow>
     (case frame_loop fr p A_name B_name exclude_bonded (p_rdf p, None)
             (py_slice trajectory start stop) of
        Inl e \<Rightarrow> Inl e
      | Inr (rdf, counts) \<Rightarrow>
     (case normalization exclude_bonded counts of
        Inl e \<Rightarrow> Inl e
      | Inr n \<Rightarrow> Inr (rdf, n))))"

section \<open>The specification's reading of the transform\<close>

text \<open>
  The specification describes one output value as
  \<open>S(q) = 1 + 4\<pi> \<cdot> density \<cdot> (1/q) \<cdot> T\<close>, with \<open>T\<close> the trapezoidal rule for
  \<open>r \<cdot> (g(r) - 1) \<cdot> sin(q \<cdot> r)\<close> over the radius samples, accumulated from left to right
  with the fixed step \<open>dr\<close>.  These two definitions follow that description, not the
  source; \<open>spec_sq\<close> has no value where \<open>q = 0\<close>, the singularity the specification names.
\<close>

fun trapezoid_sum :: "real \<Rightarrow> real \<Rightarrow> real list \<Rightarrow> real" where
  "trapezoid_sum dr acc (a # b # ys) = trapezoid_sum dr (acc + dr * (a + b) / 2) (b # ys)"
| "trapezoid_sum dr acc ys = acc"

definition spec_sq :: "real list \<Rightarrow> real list \<Rightarrow> real \<Rightarrow> real \<Rightarrow> real \<Rightarrow> npfloat" where
  "spec_sq radii gOfR dr density q =
     (if q = 0 then None
      else Some (1 + 4 * pi * density * (1 / q) *
                  trapezoid_sum dr 0
                    (map (\<lambda>i. radii ! i * (gOfR ! i - 1) * sin (q * radii ! i)) [0..<length radii])))"


section \<open>The specification's reading of the default search radius\<close>

text \<open>
  The specification bounds the default radius by half the smallest of the three edge
  lengths of the first frame's box.  This definition follows that description; the source
  has no such quantity.
\<close>

definition f32_min :: "f32 \<Rightarrow> f32 \<Rightarrow> f32" where
  "f32_min a b = (if f32_val b < f32_val a then b else a)"

definition smallest_edge :: "snapshot \<Rightarrow> f32" where
  "smallest_edge snap = f32_min (f32_min (Lx (box snap)) (Ly (box snap))) (Lz (box snap))"

section \<open>The argument check of the RDF constructor\<close>

text \<open>
  Modelled from the spec: the constructor \<open>freud.density.RDF\<close> belongs to the external
  freud library and is not among the source files.  \<open>intermolecular_rdf\<close> has no check of its
  own on \<open>bins\<close>, \<open>r_min\<close> and \<open>r_max\<close>: it hands them to the constructor.  Section 4.2 of the
  specification says that the call fails when \<open>bins < 1\<close>, \<open>rMin < 0\<close> or \<open>rMin \<ge> rMax\<close>;
  this predicate says that of the constructor.
\<close>

definition rdf_new_checks :: "'rdf freud \<Rightarrow> bool" where
  "rdf_new_checks fr =
     (\<forall>bins r_max r_min. bins < 1 \<or> r_min < 0 \<or> r_max \<le> r_min
        \<longrightarrow> rdf_new fr bins r_max r_min = Inl ValueError)"

section \<open>A small trajectory to run the model on\<close>

text \<open>
  A stand-in for freud on small frames: the RDF object counts the frames and pairs it was
  given, the clustering merges the labels of the two ends of every bond, and the neighbour
  query compares distances without periodic images.  The particles of the frames below all
  sit on the x axis, so the distance is taken as the sum of the coordinate differences,
  which on a common axis is the Euclidean distance and needs no square root.
\<close>

definition axis_dist :: "vec3 \<Rightarrow> vec3 \<Rightarrow> real" where
  "axis_dist u v = (case u of (x1, y1, z1) \<Rightarrow> case v of (x2, y2, z2) \<Rightarrow>
                      \<bar>x1 - x2\<bar> + \<bar>y1 - y2\<bar> + \<bar>z1 - z2\<bar>)"

definition demo_query :: "box6 \<Rightarrow> vec3 list \<Rightarrow> vec3 list \<Rightarrow> real \<Rightarrow> bool \<Rightarrow> pyerr + nlist" where
  "demo_query b points query_points r_max exclude_ii =
     Inr (concat (map (\<lambda>qi. concat (map (\<lambda>pt.
            if axis_dist (points ! pt) (query_points ! qi) \<le> r_max \<and> \<not> (exclude_ii \<and> qi = pt)
            then [(qi, pt, axis_dist (points ! pt) (query_points ! qi))] else [])
          [0..<length points])) [0..<length query_points]))"

definition demo_cluster :: "box6 \<Rightarrow> vec3 list \<Rightarrow> nlist \<Rightarrow> pyerr + nat list" where
  "demo_cluster b points nl =
     Inr (fold (\<lambda>(qi, pt, d) labels. map (\<lambda>l. if l = labels ! pt then labels ! qi else l) labels)
            nl [0..<length points])"

definition demo_freud :: "(nat \<times> nat) freud" where
  "demo_freud =
     \<lparr>rdf_new = (\<lambda>bins r_max r_min.
                   if bins < 1 \<or> r_min < 0 \<or> r_max \<le> r_min then Inl ValueError else Inr (0, 0)),
      rdf_compute = (\<lambda>(frames, pairs) b points nl. Inr (Suc frames, pairs + length nl)),
      aabb_query = demo_query,
      compute_distances = (\<lambda>b ps qs.
                   if length ps = length qs then Inr (map2 axis_dist ps qs)
                   else Inl ValueError),
      nlist_from_arrays = (\<lambda>nq np qis pts ds.
                   if length qis = length pts \<and> length pts = length ds then Inr (zip qis (zip pts ds))
                   else Inl ValueError),
      cluster_compute = demo_cluster\<rparr>"

text \<open>The single-precision numbers 0, 10, 20 and 30.\<close>

definition f32_0 :: f32 where "f32_0 = \<lparr>mant = 0, expo = - 149\<rparr>"
definition f32_10 :: f32 where "f32_10 = \<lparr>mant = 10485760, expo = - 20\<rparr>"
definition f32_20 :: f32 where "f32_20 = \<lparr>mant = 10485760, expo = - 19\<rparr>"
definition f32_30 :: f32 where "f32_30 = \<lparr>mant = 15728640, expo = - 19\<rparr>"

definition cube_box :: box6 where
  "cube_box = \<lparr>Lx = f32_10, Ly = f32_10, Lz = f32_10, xy = f32_0, xz = f32_0, yz = f32_0\<rparr>"

definition slab_box :: box6 where
  "slab_box = \<lparr>Lx = f32_10, Ly = f32_20, Lz = f32_30, xy = f32_0, xz = f32_0, yz = f32_0\<rparr>"

text \<open>
  Four particles, three of type A and one of type B; particles 0 and 1 are bonded.  In
  the second frame particle 2 has moved away from the other two.
\<close>

definition frame0 :: snapshot where
  "frame0 = \<lparr>box = cube_box, particles_N = 4, types = [''A'', ''B''], typeid = [0, 0, 0, 1],
              position = [(0, 0, 0), (1, 0, 0), (2, 0, 0), (7, 0, 0)],
              bonds_group = [(0, 1)]\<rparr>"

definition frame1 :: snapshot where
  "frame1 = frame0\<lparr>position := [(0, 0, 0), (1, 0, 0), (5, 0, 0), (7, 0, 0)]\<rparr>"

definition slab_frame :: snapshot where
  "slab_frame = frame0\<lparr>box := slab_box\<rparr>"

section \<open>Properties of the transform\<close>

lemma length_linspace: "length (linspace a b n) = n"
  by (simp add: linspace_def Let_def)

lemma linspace_nth:
  assumes "1 < n" "i < n"
  shows "linspace a b n ! i = a + real i * ((b - a) / real (n - 1))"
proof (cases "i = n - 1")
  case True
  with assms show ?thesis
    by (simp add: linspace_def Let_def)
next
  case False
  with assms show ?thesis
    by (auto simp add: linspace_def Let_def)
qed

lemma linspace_first: "1 < n \<Longrightarrow> linspace a b n ! 0 = a"
  by (simp add: linspace_nth)





lemma linspace_lower:
  assumes "a < b" "j < n"
  shows "a \<le> linspace a b n ! j"
proof -
  have "1 < n \<or> n = 1" using assms by linarith
  then show ?thesis
  proof
    assume n: "1 < n"
    have "0 \<le> real j * ((b - a) / real (n - 1))" using assms n by simp
    then show ?thesis using assms n by (simp add: linspace_nth)
  next
    assume "n = 1"
    then show ?thesis using assms by (simp add: linspace_def)
  qed
qed

lemma trapz_Cons2: "trapz (a # b # ys) d = d * (b + a) / 2 + trapz (b # ys) d"
  by (simp add: trapz_def)

lemma trapezoid_sum_trapz: "trapezoid_sum d acc ys = acc + trapz ys d"
  by (induction d acc ys rule: trapezoid_sum.induct)
    (simp_all add: trapz_def algebra_simps)

lemma integrand_eq:
  assumes "length g = length r"
  shows "integrand r g q = Inr (map (\<lambda>i. r ! i * (g ! i - 1) * sin (q * r ! i)) [0..<length r])"
  using assms
  by (auto simp add: integrand_def np_binop_def intro!: nth_equalityI)

lemma sq_loop_Inr:
  "sq_loop r g dr \<rho> qs = Inr sq \<Longrightarrow>
     length sq = length qs \<and> (\<forall>j<length qs. sq_entry r g dr \<rho> (qs ! j) = Inr (sq ! j))"
proof (induction qs arbitrary: sq)
  case Nil
  then show ?case by simp
next
  case (Cons q qs)
  from Cons.prems obtain s ss where
    s: "sq_entry r g dr \<rho> q = Inr s" and ss: "sq_loop r g dr \<rho> qs = Inr ss" and sq: "sq = s # ss"
    by (auto split: sum.splits)
  from Cons.IH[OF ss] have ih: "length ss = length qs"
    "\<And>j. j < length qs \<Longrightarrow> sq_entry r g dr \<rho> (qs ! j) = Inr (ss ! j)" by auto
  show ?case
  proof (intro conjI allI impI)
    show "length sq = length (q # qs)" using sq ih by simp
  next
    fix j assume "j < length (q # qs)"
    then show "sq_entry r g dr \<rho> ((q # qs) ! j) = Inr (sq ! j)"
      using s ih sq by (cases j) auto
  qed
qed

lemma sq_loop_total:
  assumes "\<And>q. q \<in> set qs \<Longrightarrow> \<exists>s. sq_entry r g dr \<rho> q = Inr s"
  shows "\<exists>sq. sq_loop r g dr \<rho> qs = Inr sq"
  using assms
proof (induction qs)
  case Nil
  then show ?case by simp
next
  case (Cons q qs)
  then obtain s where s: "sq_entry r g dr \<rho> q = Inr s" by auto
  from Cons obtain ss where "sq_loop r g dr \<rho> qs = Inr ss" by auto
  with s show ?case by simp
qed


lemma sq_entry_eq:
  assumes "length g = length r"
  shows "sq_entry r g dr \<rho> q =
           Inr (np_add_scalar 1 (np_div (4 * pi * \<rho> *
                  trapz (map (\<lambda>i. r ! i * (g ! i - 1) * sin (q * r ! i)) [0..<length r]) dr) q))"
  by (simp add: sq_entry_def integrand_eq[OF assms])

lemma sq_entry_spec:
  assumes "length g = length r"
  shows "sq_entry r g dr \<rho> q = Inr (spec_sq r g dr \<rho> q)"
  by (simp add: sq_entry_eq[OF assms] spec_sq_def np_div_def np_add_scalar_def
      trapezoid_sum_trapz)

lemma rdf2sq_returns:
  assumes "2 \<le> length r" "length g = length r"
  shows "\<exists>sq. rdf2sq r g Qmin Qmax \<rho> = Inr (linspace Qmin Qmax 1000, sq)"
proof -
  obtain sq where "sq_loop r g (r ! 1 - r ! 0) \<rho> (linspace Qmin Qmax 1000) = Inr sq"
    using sq_loop_total[of "linspace Qmin Qmax 1000" r g "r ! 1 - r ! 0" \<rho>]
      sq_entry_spec[OF assms(2)] by blast
  then show ?thesis using assms by (simp add: rdf2sq_def Let_def)
qed

lemma rdf2sq_Inr:
  assumes "rdf2sq r g Qmin Qmax \<rho> = Inr (q, sq)"
  shows "2 \<le> length r" and "q = linspace Qmin Qmax 1000"
    and "sq_loop r g (r ! 1 - r ! 0) \<rho> q = Inr sq"
  using assms by (auto simp add: rdf2sq_def Let_def split: if_splits sum.splits)









text \<open>
  Claim C6.  With fewer than 2 radii the call raises (\<open>IndexError\<close>, from \<open>r[1]\<close>) and
  produces no output.
\<close>

theorem rdf2sq_short_radii:
  assumes "length r < 2"
  shows "rdf2sq r g Qmin Qmax \<rho> = Inl IndexError"
  using assms by (simp add: rdf2sq_def Let_def)

theorem rdf2sq_short_radii_witness:
  "rdf2sq [1] [1] 1 2 1 = Inl IndexError"
  using rdf2sq_short_radii[of "[1]" "[1]" 1 2 1] by simp

lemma sq_entry_None:
  assumes "sq_entry r g dr \<rho> q = Inr s"
  shows "s = None \<longleftrightarrow> q = 0"
  using assms
  by (auto simp add: sq_entry_def np_div_def np_add_scalar_def split: sum.splits if_splits)

text \<open>
  Claim C7.  With \<open>0 < Qmin < Qmax\<close> every grid point, the divisor of the one division of
  each output value, is nonzero, and every output value is a finite number; with
  \<open>Qmin = 0\<close> the first grid point is zero and the first output value is not a finite number.
\<close>

theorem rdf2sq_divisor:
  "(0 < Qmin \<and> Qmin < Qmax \<longrightarrow>
      (\<forall>q sq. rdf2sq r g Qmin Qmax \<rho> = Inr (q, sq) \<longrightarrow> (\<forall>j<1000. q ! j \<noteq> 0 \<and> sq ! j \<noteq> None)))
   \<and> (\<forall>q sq. rdf2sq r g 0 Qmax \<rho> = Inr (q, sq) \<longrightarrow> q ! 0 = 0 \<and> sq ! 0 = None)"
proof -
  have A: "q ! j \<noteq> 0 \<and> sq ! j \<noteq> None"
    if pos: "0 < Qmin" "Qmin < Qmax" and ret: "rdf2sq r g Qmin Qmax \<rho> = Inr (q, sq)"
      and j: "j < 1000" for q sq j
  proof -
    note q = rdf2sq_Inr(2)[OF ret]
    have "Qmin \<le> q ! j" using linspace_lower[OF pos(2) j] by (simp add: q)
    then have nz: "q ! j \<noteq> 0" using pos by simp
    from sq_loop_Inr[OF rdf2sq_Inr(3)[OF ret]] j
    have "sq_entry r g (r ! 1 - r ! 0) \<rho> (q ! j) = Inr (sq ! j)"
      by (simp add: q length_linspace)
    from sq_entry_None[OF this] nz show ?thesis by simp
  qed
  have B: "q ! 0 = 0 \<and> sq ! 0 = None" if ret: "rdf2sq r g 0 Qmax \<rho> = Inr (q, sq)" for q sq
  proof -
    note q = rdf2sq_Inr(2)[OF ret]
    have z: "q ! 0 = 0" by (simp add: q linspace_first)
    from sq_loop_Inr[OF rdf2sq_Inr(3)[OF ret]]
    have "sq_entry r g (r ! 1 - r ! 0) \<rho> (q ! 0) = Inr (sq ! 0)"
      by (simp add: q length_linspace)
    from sq_entry_None[OF this] z show ?thesis by simp
  qed
  from A B show ?thesis by blast
qed

theorem rdf2sq_divisor_witness:
  "\<exists>q sq q0 sq0. rdf2sq [0, 1] [1, 1] 1 2 1 = Inr (q, sq) \<and> q ! 5 \<noteq> 0 \<and> sq ! 5 \<noteq> None
      \<and> rdf2sq [0, 1] [1, 1] 0 2 1 = Inr (q0, sq0) \<and> q0 ! 0 = 0 \<and> sq0 ! 0 = None"
proof -
  obtain sq where ret: "rdf2sq [0, 1] [1, 1] 1 2 1 = Inr (linspace 1 2 1000, sq)"
    using rdf2sq_returns[of "[0, 1]" "[1, 1]" 1 2 1] by auto
  obtain sq0 where ret0: "rdf2sq [0, 1] [1, 1] 0 2 1 = Inr (linspace 0 2 1000, sq0)"
    using rdf2sq_returns[of "[0, 1]" "[1, 1]" 0 2 1] by auto
  have h: "(0::real) < 1 \<and> (1::real) < 2" by simp
  note d = rdf2sq_divisor[of 1 2 "[0, 1]" "[1, 1]" 1]
  from d h ret have "linspace 1 2 1000 ! 5 \<noteq> 0 \<and> sq ! 5 \<noteq> None" by auto
  moreover from d ret0 have "linspace 0 2 1000 ! 0 = 0 \<and> sq0 ! 0 = None" by blast
  ultimately show ?thesis using ret ret0 by blast
qed

section \<open>Properties of the accumulator\<close>

lemma list_index_absent: "a \<notin> set xs \<Longrightarrow> list_index xs a = Inl ValueError"
  by (induction xs) auto

lemma type_mask_absent: "name \<notin> set (types snap) \<Longrightarrow> type_mask snap name = Inl ValueError"
  by (simp add: type_mask_def list_index_absent)

lemma list_index_cases: "list_index xs a = Inl ValueError \<or> (\<exists>i. list_index xs a = Inr i)"
  by (induction xs) auto

lemma type_mask_cases: "type_mask snap name = Inl ValueError \<or> (\<exists>m. type_mask snap name = Inr m)"
  using list_index_cases[of "types snap" name] by (auto simp add: type_mask_def)

lemma rdf_setup_empty: "rdf_setup fr [] A B r_max r_min bins excl = Inl IndexError"
  by (simp add: rdf_setup_def first_frame_def)

lemma rdf_setup_rdf_new_fails:
  assumes "rdf_new fr bins (r_max_used snap r_max) r_min = Inl e"
  shows "rdf_setup fr (snap # rest) A B r_max r_min bins excl = Inl e"
  using assms by (simp add: rdf_setup_def first_frame_def Let_def)

lemma intermolecular_rdf_setup_fails:
  assumes "rdf_setup fr traj A B r_max r_min bins excl = Inl e"
  shows "intermolecular_rdf fr traj A B start stop r_max r_min bins excl = Inl e"
  using assms by (simp add: intermolecular_rdf_def)

lemma rdf_setup_missing:
  assumes "A \<notin> set (types snap) \<or> B \<notin> set (types snap)"
  shows "rdf_setup fr (snap # rest) A B r_max r_min bins excl =
           Inl (case rdf_new fr bins (r_max_used snap r_max) r_min of
                  Inl e \<Rightarrow> e | Inr rdf \<Rightarrow> ValueError)"
proof (cases "rdf_new fr bins (r_max_used snap r_max) r_min")
  case (Inl e)
  then show ?thesis by (simp add: rdf_setup_rdf_new_fails)
next
  case (Inr rdf)
  show ?thesis
  proof (cases "A \<in> set (types snap)")
    case False
    then show ?thesis using Inr
      by (simp add: rdf_setup_def first_frame_def Let_def type_mask_absent)
  next
    case True
    with assms have "B \<notin> set (types snap)" by simp
    then have B: "type_mask snap B = Inl ValueError" by (rule type_mask_absent)
    from type_mask_cases[of snap A] show ?thesis using Inr B
      by (auto simp add: rdf_setup_def first_frame_def Let_def)
  qed
qed

text \<open>
  Claim C8.  When \<open>A_name\<close> or \<open>B_name\<close> is not among the type names of the first frame,
  the call fails in the statements before the frame loop, so no frame is accumulated.  The
  RDF constructor runs one line before the lookup: when it accepts its arguments the
  exception is the \<open>ValueError\<close> of \<open>list.index\<close>, otherwise it is the constructor's own.
\<close>

theorem missing_type_name:
  assumes "trajectory = snap # rest"
      and "A_name \<notin> set (types snap) \<or> B_name \<notin> set (types snap)"
  shows "rdf_setup fr trajectory A_name B_name r_max r_min bins exclude_bonded =
           Inl (case rdf_new fr bins (r_max_used snap r_max) r_min of
                  Inl e \<Rightarrow> e | Inr rdf \<Rightarrow> ValueError)
       \<and> intermolecular_rdf fr trajectory A_name B_name start stop r_max r_min bins exclude_bonded =
           Inl (case rdf_new fr bins (r_max_used snap r_max) r_min of
                  Inl e \<Rightarrow> e | Inr rdf \<Rightarrow> ValueError)"
  using assms rdf_setup_missing[of A_name snap B_name fr rest r_max r_min bins exclude_bonded]
  by (simp add: intermolecular_rdf_setup_fails)

theorem missing_type_name_witness:
  "intermolecular_rdf demo_freud [frame0, frame1] ''C'' ''A'' 0 None None 0 10 True = Inl ValueError"
proof -
  have a: "''C'' \<notin> set (types frame0) \<or> ''A'' \<notin> set (types frame0)"
    by (simp add: frame0_def)
  have b: "rdf_new demo_freud 10 (r_max_used frame0 None) 0 = Inr (0, 0)"
    by code_simp
  from missing_type_name[OF refl a, of demo_freud "[frame1]" None 0 10 True 0 None]
  show ?thesis by (simp add: b)
qed

text \<open>
  Claim C9.  An empty trajectory fails at \<open>trajectory[0]\<close> with \<open>IndexError\<close>.  On a
  trajectory with a first frame, \<open>bins < 1\<close>, \<open>r_min < 0\<close> or \<open>r_min\<close> not below the search
  radius (the given \<open>r_max\<close>, or the default one of the first frame) make the RDF constructor
  fail, under the argument check that the specification describes, and the call fails with
  its \<open>ValueError\<close>.  Either way the failure is in the statements before the frame loop and
  the call returns nothing.
\<close>

theorem invalid_arguments_rejected:
  assumes "rdf_new_checks fr"
      and "trajectory = [] \<or> bins < 1 \<or> r_min < 0
           \<or> (trajectory \<noteq> [] \<and> r_max_used (hd trajectory) r_max \<le> r_min)"
  shows "rdf_setup fr trajectory A_name B_name r_max r_min bins exclude_bonded =
           Inl (if trajectory = [] then IndexError else ValueError)
       \<and> intermolecular_rdf fr trajectory A_name B_name start stop r_max r_min bins exclude_bonded =
           Inl (if trajectory = [] then IndexError else ValueError)"
proof (cases trajectory)
  case Nil
  then show ?thesis by (simp add: rdf_setup_empty intermolecular_rdf_setup_fails)
next
  case (Cons snap rest)
  with assms(2) have "bins < 1 \<or> r_min < 0 \<or> r_max_used snap r_max \<le> r_min" by auto
  with assms(1) have "rdf_new fr bins (r_max_used snap r_max) r_min = Inl ValueError"
    unfolding rdf_new_checks_def by blast
  then have "rdf_setup fr trajectory A_name B_name r_max r_min bins exclude_bonded = Inl ValueError"
    using Cons by (simp add: rdf_setup_rdf_new_fails)
  then show ?thesis using Cons by (simp add: intermolecular_rdf_setup_fails)
qed

theorem invalid_arguments_rejected_witness:
  "intermolecular_rdf demo_freud [frame0, frame1] ''A'' ''A'' 0 None None 0 0 True = Inl ValueError
   \<and> intermolecular_rdf demo_freud [] ''A'' ''A'' 0 None None 0 10 True = Inl IndexError"
proof -
  have c: "rdf_new_checks demo_freud"
    by (simp add: rdf_new_checks_def demo_freud_def)
  have a: "[frame0, frame1] = [] \<or> (0::int) < 1 \<or> (0::real) < 0
           \<or> ([frame0, frame1] \<noteq> [] \<and> r_max_used (hd [frame0, frame1]) None \<le> 0)" by simp
  have b: "([]::snapshot list) = [] \<or> (10::int) < 1 \<or> (0::real) < 0
           \<or> (([]::snapshot list) \<noteq> [] \<and> r_max_used (hd []) None \<le> 0)" by simp
  from invalid_arguments_rejected[OF c a, of "''A''" "''A''" True 0 None]
    invalid_arguments_rejected[OF c b, of "''A''" "''A''" True 0 None]
  show ?thesis by simp
qed

subsection \<open>The frame loop\<close>

lemma frame_loop_snoc:
  "frame_loop fr p A B excl st (snaps @ [snap]) =
     (case frame_loop fr p A B excl st snaps of
        Inl e \<Rightarrow> Inl e
      | Inr st' \<Rightarrow> frame_step fr p A B excl st' snap)"
  by (induction snaps arbitrary: st) (auto split: sum.splits)

lemma frame_step_excluding:
  assumes "frame_step fr p A B True st snap = Inr (rdf, counts)"
  shows "\<exists>A_pos nl mA mB nl'.
           frame_pairs fr p A B snap = Inr (A_pos, nl) \<and> p_molecules p = Some (mA, mB)
           \<and> filter_bonded mA mB nl = Inr nl' \<and> counts = Some (length nl, length nl')"
  using assms
  by (auto simp add: frame_step_def split: sum.splits option.splits prod.splits)

lemma frame_step_plain:
  assumes "frame_step fr p A B False st snap = Inr (rdf, counts)"
  shows "counts = snd st"
  using assms
  by (auto simp add: frame_step_def split: sum.splits prod.splits)

lemma frame_loop_plain:
  "frame_loop fr p A B False st snaps = Inr (rdf, counts) \<Longrightarrow> counts = snd st"
proof (induction snaps arbitrary: st)
  case Nil
  then show ?case by auto
next
  case (Cons snap snaps)
  from Cons.prems obtain st' where
    s: "frame_step fr p A B False st snap = Inr st'" and
    l: "frame_loop fr p A B False st' snaps = Inr (rdf, counts)"
    by (auto split: sum.splits)
  from Cons.IH[OF l] frame_step_plain[of fr p A B st snap "fst st'" "snd st'"] s
  show ?case by simp
qed

lemma frame_loop_last:
  assumes "frame_loop fr p A B True st snaps = Inr (rdf, counts)" and "snaps \<noteq> []"
  shows "\<exists>A_pos nl mA mB nl'.
           frame_pairs fr p A B (last snaps) = Inr (A_pos, nl) \<and> p_molecules p = Some (mA, mB)
           \<and> filter_bonded mA mB nl = Inr nl' \<and> counts = Some (length nl, length nl')"
proof -
  from assms(2) have "snaps = butlast snaps @ [last snaps]" by simp
  then have "frame_loop fr p A B True st (butlast snaps @ [last snaps]) = Inr (rdf, counts)"
    using assms(1) by simp
  then obtain st' where "frame_step fr p A B True st' (last snaps) = Inr (rdf, counts)"
    by (auto simp add: frame_loop_snoc split: sum.splits)
  from frame_step_excluding[OF this] show ?thesis .
qed

lemma np_take_Inr: "np_take xs idx = Inr ys \<Longrightarrow> ys = map (\<lambda>i. xs ! i) idx"
  by (auto simp add: np_take_def split: if_splits)

lemma filter_zip_map:
  "map fst (filter snd (zip xs (map P xs))) = filter P xs"
  by (induction xs) auto

text \<open>The exclusion keeps exactly the pairs whose two molecule labels differ.\<close>

lemma filter_bonded_eq:
  assumes "filter_bonded mA mB nl = Inr nl'"
  shows "nl' = filter (\<lambda>(qi, pt, d). mA ! pt \<noteq> mB ! qi) nl"
proof -
  from assms obtain iA iB where
    a: "np_take mA (map (\<lambda>(qi, pt, d). pt) nl) = Inr iA" and
    b: "np_take mB (map (\<lambda>(qi, pt, d). qi) nl) = Inr iB" and
    c: "nl' = map fst (filter snd (zip nl (map2 (\<lambda>a b. a \<noteq> b) iA iB)))"
    by (auto simp add: filter_bonded_def split: sum.splits)
  have "map2 (\<lambda>a b. a \<noteq> b) iA iB = map (\<lambda>(qi, pt, d). mA ! pt \<noteq> mB ! qi) nl"
    unfolding np_take_Inr[OF a] np_take_Inr[OF b]
    by (induction nl) auto
  with c show ?thesis by (simp add: filter_zip_map)
qed

text \<open>
  Claim C3, as amended.  For a call whose statements before the loop and whose frame loop
  succeed on at least one selected frame: without \<open>exclude_bonded\<close> the call returns the
  fraction 1; with \<open>exclude_bonded\<close>, and at least one pair in the last selected frame
  before the exclusion, it returns the number of pairs of that last frame whose two
  molecule labels differ, divided by the number of pairs of that same frame before the
  exclusion.  No earlier frame enters the fraction.
\<close>

theorem survival_fraction_last_frame:
  assumes "rdf_setup fr trajectory A_name B_name r_max r_min bins exclude_bonded = Inr p"
      and "frame_loop fr p A_name B_name exclude_bonded (p_rdf p, None)
             (py_slice trajectory start stop) = Inr (rdf, counts)"
      and "py_slice trajectory start stop \<noteq> []"
  shows "if exclude_bonded then
           (\<exists>A_pos nl mA mB.
              frame_pairs fr p A_name B_name (last (py_slice trajectory start stop)) = Inr (A_pos, nl)
              \<and> p_molecules p = Some (mA, mB)
              \<and> (nl \<noteq> [] \<longrightarrow>
                   intermolecular_rdf fr trajectory A_name B_name start stop r_max r_min bins
                       exclude_bonded =
                     Inr (rdf, real (length (filter (\<lambda>(qi, pt, d). mA ! pt \<noteq> mB ! qi) nl))
                               / real (length nl))))
         else intermolecular_rdf fr trajectory A_name B_name start stop r_max r_min bins
                exclude_bonded = Inr (rdf, 1)"
proof (cases exclude_bonded)
  case False
  with assms(2) have "counts = None"
    using frame_loop_plain[of fr p A_name B_name "(p_rdf p, None)"] by auto
  with False assms show ?thesis
    by (simp add: intermolecular_rdf_def normalization_def)
next
  case True
  from assms(2) True
  have "frame_loop fr p A_name B_name True (p_rdf p, None) (py_slice trajectory start stop)
          = Inr (rdf, counts)" by simp
  from frame_loop_last[OF this assms(3)] obtain A_pos nl mA mB nl' where
    fp: "frame_pairs fr p A_name B_name (last (py_slice trajectory start stop)) = Inr (A_pos, nl)"
    and pm: "p_molecules p = Some (mA, mB)"
    and fb: "filter_bonded mA mB nl = Inr nl'"
    and cn: "counts = Some (length nl, length nl')"
    by blast
  note nl' = filter_bonded_eq[OF fb]
  have "intermolecular_rdf fr trajectory A_name B_name start stop r_max r_min bins exclude_bonded =
          Inr (rdf, real (length (filter (\<lambda>(qi, pt, d). mA ! pt \<noteq> mB ! qi) nl)) / real (length nl))"
    if "nl \<noteq> []"
    using that assms(1,2) True cn nl'
    by (simp add: intermolecular_rdf_def normalization_def)
  with fp pm True show ?thesis by auto
qed

text \<open>
  On the trajectory \<open>[frame1, frame0]\<close> with \<open>r_max = 3\<close> the first frame processed has
  two pairs, both inside the bonded molecule, and the last one has six pairs, of which four
  remain: the fraction returned is \<open>4/6\<close>.  Without \<open>exclude_bonded\<close> the fraction is 1.
\<close>

theorem survival_fraction_last_frame_witness:
  "intermolecular_rdf demo_freud [frame1, frame0] ''A'' ''A'' 0 None (Some 3) 0 10 True
     = Inr ((2, 4), 2 / 3)
   \<and> intermolecular_rdf demo_freud [frame1, frame0] ''A'' ''B'' 0 None None 0 10 False
     = Inr ((2, 1), 1)"
proof -
  let ?p = "\<lparr>p_r_max = 3, p_rdf = (0, 0), p_type_A = [True, True, True, False],
             p_type_B = [True, True, True, False],
             p_molecules = Some ([0, 0, 2], [0, 0, 2])\<rparr> :: (nat \<times> nat) prepared"
  have a: "rdf_setup demo_freud [frame1, frame0] ''A'' ''A'' (Some 3) 0 10 True = Inr ?p"
    by code_simp
  have b: "frame_loop demo_freud ?p ''A'' ''A'' True (p_rdf ?p, None)
             (py_slice [frame1, frame0] 0 None) = Inr ((2, 4), Some (6, 4))"
    by code_simp
  have c: "py_slice [frame1, frame0] 0 None \<noteq> []"
    by code_simp
  have d: "frame_pairs demo_freud ?p ''A'' ''A'' (last (py_slice [frame1, frame0] 0 None))
             = Inr ([(0, 0, 0), (1, 0, 0), (2, 0, 0)],
                    [(0, 1, 1), (0, 2, 2), (1, 0, 1), (1, 2, 1), (2, 0, 2), (2, 1, 1)])"
    by code_simp
  from survival_fraction_last_frame[OF a b c] d
  have 1: "intermolecular_rdf demo_freud [frame1, frame0] ''A'' ''A'' 0 None (Some 3) 0 10 True
             = Inr ((2, 4), 2 / 3)" by simp
  let ?q = "\<lparr>p_r_max = f32_val (default_r_max frame1), p_rdf = (0, 0),
             p_type_A = [True, True, True, False], p_type_B = [False, False, False, True],
             p_molecules = None\<rparr> :: (nat \<times> nat) prepared"
  have a': "rdf_setup demo_freud [frame1, frame0] ''A'' ''B'' None 0 10 False = Inr ?q"
    by code_simp
  have b': "frame_loop demo_freud ?q ''A'' ''B'' False (p_rdf ?q, None)
             (py_slice [frame1, frame0] 0 None) = Inr ((2, 1), None)"
    by code_simp
  from survival_fraction_last_frame[OF a' b' c]
  have 2: "intermolecular_rdf demo_freud [frame1, frame0] ''A'' ''B'' 0 None None 0 10 False
             = Inr ((2, 1), 1)" by simp
  from 1 2 show ?thesis by simp
qed

text \<open>
  The claim as stated fails where the last frame has no pair within the search radius: with
  \<open>r_max = 1/2\<close> the two frames are processed (the loop ends with both counts 0), and the
  call raises \<open>ZeroDivisionError\<close> instead of returning a fraction.
\<close>

theorem survival_fraction_counterexample:
  "rdf_setup demo_freud [frame0, frame1] ''A'' ''A'' (Some (1 / 2)) 0 10 True
     = Inr \<lparr>p_r_max = 1 / 2, p_rdf = (0, 0), p_type_A = [True, True, True, False],
             p_type_B = [True, True, True, False],
             p_molecules = Some ([0, 0, 2], [0, 0, 2])\<rparr>
   \<and> frame_loop demo_freud
         \<lparr>p_r_max = 1 / 2, p_rdf = (0, 0), p_type_A = [True, True, True, False],
           p_type_B = [True, True, True, False],
           p_molecules = Some ([0, 0, 2], [0, 0, 2])\<rparr>
         ''A'' ''A'' True ((0, 0), None) (py_slice [frame0, frame1] 0 None)
       = Inr ((2, 0), Some (0, 0))
   \<and> intermolecular_rdf demo_freud [frame0, frame1] ''A'' ''A'' 0 None (Some (1 / 2)) 0 10 True
       = Inl ZeroDivisionError"
  by code_simp

text \<open>
  Claim C10.  With \<open>exclude_bonded\<close> and a frame range that selects no frame the call
  fails: with the exception of the statements before the loop if one is raised there, and
  otherwise with \<open>UnboundLocalError\<close>, because \<open>post_filter\<close> was never assigned.  So a call
  with \<open>exclude_bonded\<close> that returns a fraction has processed at least one frame.
\<close>

theorem no_frames_selected:
  "(py_slice trajectory start stop = [] \<longrightarrow>
      intermolecular_rdf fr trajectory A_name B_name start stop r_max r_min bins True =
        Inl (case rdf_setup fr trajectory A_name B_name r_max r_min bins True of
               Inl e \<Rightarrow> e | Inr p \<Rightarrow> UnboundLocalError))
   \<and> (\<forall>rdf n. intermolecular_rdf fr trajectory A_name B_name start stop r_max r_min bins True
                  = Inr (rdf, n) \<longrightarrow> py_slice trajectory start stop \<noteq> [])"
proof -
  have A: "intermolecular_rdf fr trajectory A_name B_name start stop r_max r_min bins True =
        Inl (case rdf_setup fr trajectory A_name B_name r_max r_min bins True of
               Inl e \<Rightarrow> e | Inr p \<Rightarrow> UnboundLocalError)"
    if "py_slice trajectory start stop = []"
    using that by (simp add: intermolecular_rdf_def normalization_def split: sum.splits)
  then show ?thesis by auto
qed

theorem no_frames_selected_witness:
  "intermolecular_rdf demo_freud [frame0, frame1] ''A'' ''A'' 5 None None 0 10 True
     = Inl UnboundLocalError
   \<and> py_slice [frame0, frame1] 0 None \<noteq> []"
proof -
  have a: "py_slice [frame0, frame1] 5 None = []"
    by code_simp
  have b: "rdf_setup demo_freud [frame0, frame1] ''A'' ''A'' None 0 10 True
             = Inr \<lparr>p_r_max = f32_val (default_r_max frame0), p_rdf = (0, 0),
                     p_type_A = [True, True, True, False], p_type_B = [True, True, True, False],
                     p_molecules = Some ([0, 0, 2], [0, 0, 2])\<rparr>"
    by code_simp
  have c: "intermolecular_rdf demo_freud [frame0, frame1] ''A'' ''A'' 0 None (Some 3) 0 10 True
             = Inr ((2, 4), 0)"
    by code_simp
  from no_frames_selected[of "[frame0, frame1]" 5 None demo_freud "''A''" "''A''" None 0 10] a b
  have "intermolecular_rdf demo_freud [frame0, frame1] ''A'' ''A'' 5 None None 0 10 True
          = Inl UnboundLocalError" by simp
  moreover
  from no_frames_selected[of "[frame0, frame1]" 0 None demo_freud "''A''" "''A''" "Some 3" 0 10] c
  have "py_slice [frame0, frame1] 0 None \<noteq> []" by blast
  ultimately show ?thesis by simp
qed

subsection \<open>The default search radius\<close>

lemma powi_pos: "0 < (2::real) powi e"
  by (rule zero_less_power_int) simp

lemma powi_pred: "(2::real) powi (e - 1) = 2 powi e / 2"
  by (simp add: power_int_diff)

lemma powi_le: "k \<le> e \<Longrightarrow> (2::real) powi k \<le> 2 powi e"
  by (rule power_int_increasing) simp_all

lemma powi_split: "e \<le> k \<Longrightarrow> (2::real) powi k = 2 ^ nat (k - e) * 2 powi e"
proof -
  assume le: "e \<le> k"
  have "(2::real) powi k = 2 powi ((k - e) + e)" by simp
  also have "\<dots> = 2 powi (k - e) * 2 powi e" by (rule power_int_add) simp
  also have "(2::real) powi (k - e) = 2 ^ nat (k - e)"
    using le by (simp add: power_int_nonneg_exp)
  finally show ?thesis .
qed

lemma f32_val_pos_iff: "0 < f32_val x \<longleftrightarrow> 0 < mant x"
proof -
  have "\<not> (2::real) powi expo x < 0" using powi_pos[of "expo x"] by linarith
  then show ?thesis by (simp add: f32_val_def zero_less_mult_iff)
qed

lemma f32_val_max: "f32_val (f32_max a b) = max (f32_val a) (f32_val b)"
  by (simp add: f32_max_def max_def)

lemma f32_val_largest_edge:
  "f32_val (largest_edge snap) =
     max (max (f32_val (Lx (box snap))) (f32_val (Ly (box snap)))) (f32_val (Lz (box snap)))"
  by (simp add: largest_edge_def f32_val_max)

text \<open>The operations stay on the grid of single-precision numbers.\<close>

lemma f32_ok_max: "f32_ok a \<Longrightarrow> f32_ok b \<Longrightarrow> f32_ok (f32_max a b)"
  by (simp add: f32_max_def)

lemma half_even_abs: "2 * \<bar>half_even m\<bar> \<le> \<bar>m\<bar> + 1"
  by (auto simp add: half_even_def Let_def) presburger+

lemma f32_ok_half: "f32_ok x \<Longrightarrow> f32_ok (f32_half x)"
  using half_even_abs[of "mant x"]
  by (auto simp add: f32_ok_def f32_half_def)

lemma f32_ok_nextafter: "f32_ok x \<Longrightarrow> f32_ok (nextafter_zero x)"
  by (auto simp add: f32_ok_def nextafter_zero_def sgn_if abs_if split: if_splits)

lemma f32_val_half: "- 149 < expo x \<Longrightarrow> f32_val (f32_half x) = f32_val x / 2"
  by (simp add: f32_half_def f32_val_def powi_pred)

text \<open>One step towards zero from a positive number gives a smaller number.\<close>

lemma nextafter_zero_lt:
  assumes "0 < mant x"
  shows "f32_val (nextafter_zero x) < f32_val x"
proof (cases "\<bar>mant x\<bar> = 2 ^ 23 \<and> - 149 < expo x")
  case True
  with assms have m: "mant x = 2 ^ 23" by simp
  have "real_of_int (2 ^ 24 - 1) * (2 powi expo x / 2) < real_of_int (2 ^ 23) * 2 powi expo x"
    by simp
  with True m assms show ?thesis
    by (simp add: nextafter_zero_def f32_val_def powi_pred)
next
  case False
  have "real_of_int (mant x - 1) * 2 powi expo x < real_of_int (mant x) * 2 powi expo x"
    by simp
  with False assms show ?thesis
    by (auto simp add: nextafter_zero_def f32_val_def)
qed

text \<open>
  And it is one step: no single-precision number lies strictly between a positive number
  and its neighbour towards zero.
\<close>

lemma nextafter_zero_adjacent:
  assumes x: "f32_ok x" "0 < mant x" and y: "f32_ok y" and lt: "f32_val y < f32_val x"
  shows "f32_val y \<le> f32_val (nextafter_zero x)"
proof -
  define m e n k where "m = mant x" and "e = expo x" and "n = mant y" and "k = expo y"
  have P: "0 < (2::real) powi e" "0 < (2::real) powi k" "0 < (2::real) powi (e - 1)"
    by (simp_all add: zero_less_power_int)
  have half: "(2::real) powi (e - 1) = 2 powi e / 2" by (simp add: power_int_diff)
  have vx: "f32_val x = real_of_int m * 2 powi e" and vy: "f32_val y = real_of_int n * 2 powi k"
    by (simp_all add: f32_val_def m_def e_def n_def k_def)
  have okx: "m < 2 ^ 24" "- 149 \<le> e" "e = - 149 \<or> 2 ^ 23 \<le> m" "0 < m"
    using x by (auto simp add: f32_ok_def m_def e_def)
  have oky: "n < 2 ^ 24" "- 149 \<le> k"
    using y by (auto simp add: f32_ok_def n_def k_def)
  define cross where "cross \<longleftrightarrow> m = 2 ^ 23 \<and> - 149 < e"
  have vn: "f32_val (nextafter_zero x) =
              (if cross then real_of_int (2 ^ 24 - 1) * 2 powi (e - 1)
               else real_of_int (m - 1) * 2 powi e)"
    using okx by (auto simp add: nextafter_zero_def f32_val_def cross_def m_def e_def)
  show ?thesis
  proof (cases "e \<le> k")
    case True
    define N where "N = n * 2 ^ nat (k - e)"
    have vN: "f32_val y = real_of_int N * 2 powi e"
      using powi_split[OF True] by (simp add: vy N_def)
    with lt vx P(1) have "real_of_int N < real_of_int m" by simp
    then have "N \<le> m - 1" by simp
    then have Nm: "real_of_int N \<le> real_of_int (m - 1)" by (simp only: of_int_le_iff)
    have le1: "real_of_int N * 2 powi e \<le> real_of_int (m - 1) * 2 powi e"
      using Nm P(1) by (simp only: mult_le_cancel_right_pos)
    have le2: "real_of_int (m - 1) * 2 powi e \<le> f32_val (nextafter_zero x)"
    proof (cases cross)
      case True
      then have "m = 2 ^ 23" by (simp add: cross_def)
      then show ?thesis using True P(1) by (simp add: vn half)
    next
      case False
      then show ?thesis by (simp add: vn)
    qed
    from le1 le2 have "real_of_int N * 2 powi e \<le> f32_val (nextafter_zero x)"
      by (rule order_trans)
    then show ?thesis by (simp only: vN)
  next
    case False
    then have ke: "k \<le> e - 1" by simp
    with oky okx have big: "2 ^ 23 \<le> m" by auto
    have "real_of_int n \<le> real_of_int (2 ^ 24 - 1)" using oky(1) by simp
    then have a: "f32_val y \<le> real_of_int (2 ^ 24 - 1) * 2 powi k"
      using P(2) unfolding vy by (simp only: mult_le_cancel_right_pos)
    have b: "real_of_int (2 ^ 24 - 1) * (2::real) powi k \<le> real_of_int (2 ^ 24 - 1) * 2 powi (e - 1)"
      using powi_le[OF ke] by simp
    have "real_of_int (2 ^ 24 - 1) * 2 powi (e - 1) \<le> f32_val (nextafter_zero x)"
    proof (cases cross)
      case True
      then show ?thesis by (simp add: vn)
    next
      case nc: False
      with big ke oky have "2 ^ 23 + 1 \<le> m" by (auto simp add: cross_def)
      then have "real_of_int (2 ^ 23) \<le> real_of_int (m - 1)" by simp
      then have c: "real_of_int (2 ^ 23) * 2 powi e \<le> real_of_int (m - 1) * 2 powi e"
        using P(1) by (simp only: mult_le_cancel_right_pos)
      have d: "real_of_int (2 ^ 24 - 1) * 2 powi (e - 1) \<le> real_of_int (2 ^ 23) * 2 powi e"
        using P(1) by (simp add: half)
      from d c have "real_of_int (2 ^ 24 - 1) * 2 powi (e - 1) \<le> real_of_int (m - 1) * 2 powi e"
        by (rule order_trans)
      then show ?thesis using nc by (simp only: vn if_False)
    qed
    with a b show ?thesis by linarith
  qed
qed

lemma half_even_bounds:
  assumes "0 < m"
  shows "0 \<le> half_even m" and "2 * half_even m \<le> m + 1"
  using assms by (auto simp add: half_even_def Let_def)

text \<open>Halving, rounding and stepping towards zero ends strictly below the exact half.\<close>

lemma nextafter_half_lt:
  assumes "0 < mant x"
  shows "f32_val (nextafter_zero (f32_half x)) < f32_val x / 2"
proof (cases "- 149 < expo x")
  case True
  then have h: "f32_half x = x\<lparr>expo := expo x - 1\<rparr>" by (simp add: f32_half_def)
  have "f32_val (nextafter_zero (f32_half x)) < f32_val (f32_half x)"
    using assms by (intro nextafter_zero_lt) (simp add: h)
  then show ?thesis by (simp add: f32_val_half[OF True])
next
  case False
  then have h: "f32_half x = x\<lparr>mant := half_even (mant x)\<rparr>" by (simp add: f32_half_def)
  note hb = half_even_bounds[OF assms]
  have pos: "0 < f32_val x / 2" using assms by (simp add: f32_val_pos_iff)
  show ?thesis
  proof (cases "half_even (mant x) = 0")
    case True
    then show ?thesis using pos by (simp add: h nextafter_zero_def f32_val_def)
  next
    case nz: False
    with hb have hp: "0 < half_even (mant x)" by simp
    have "real_of_int (half_even (mant x) - 1) < real_of_int (mant x) / 2"
      using hb(2) by linarith
    then have "real_of_int (half_even (mant x) - 1) * 2 powi expo x
                 < real_of_int (mant x) / 2 * 2 powi expo x"
      by (simp del: of_int_diff)
    with False nz hp show ?thesis
      by (simp add: h nextafter_zero_def f32_val_def)
  qed
qed

text \<open>
  Claim C2, as amended.  When \<open>r_max\<close> is not supplied the call behaves as the call with
  \<open>r_max\<close> set to the default radius of the first frame.  For single-precision edge lengths
  of which one is positive, that radius is a single-precision number strictly less than
  half the largest of the three edges; when the largest edge is not in the lowest binade
  (so that halving it is exact) it is the greatest single-precision number below that half.
\<close>

theorem default_r_max_half_largest:
  assumes "trajectory = snap # rest"
      and "f32_ok (Lx (box snap))" and "f32_ok (Ly (box snap))" and "f32_ok (Lz (box snap))"
      and "0 < f32_val (largest_edge snap)"
  shows "intermolecular_rdf fr trajectory A_name B_name start stop None r_min bins exclude_bonded
           = intermolecular_rdf fr trajectory A_name B_name start stop
               (Some (f32_val (default_r_max snap))) r_min bins exclude_bonded
       \<and> f32_val (largest_edge snap) =
           max (max (f32_val (Lx (box snap))) (f32_val (Ly (box snap)))) (f32_val (Lz (box snap)))
       \<and> f32_ok (default_r_max snap)
       \<and> f32_val (default_r_max snap) < f32_val (largest_edge snap) / 2
       \<and> (- 149 < expo (largest_edge snap) \<longrightarrow>
            (\<forall>y. f32_ok y \<and> f32_val y < f32_val (largest_edge snap) / 2
                   \<longrightarrow> f32_val y \<le> f32_val (default_r_max snap)))"
proof -
  let ?m = "largest_edge snap"
  have "rdf_setup fr trajectory A_name B_name None r_min bins exclude_bonded
          = rdf_setup fr trajectory A_name B_name (Some (f32_val (default_r_max snap))) r_min bins
              exclude_bonded"
    using assms(1) by (simp add: rdf_setup_def first_frame_def r_max_used_def)
  then have 1: "intermolecular_rdf fr trajectory A_name B_name start stop None r_min bins exclude_bonded
           = intermolecular_rdf fr trajectory A_name B_name start stop
               (Some (f32_val (default_r_max snap))) r_min bins exclude_bonded"
    by (simp add: intermolecular_rdf_def)
  have okm: "f32_ok ?m"
    using assms(2-4) by (simp add: largest_edge_def f32_ok_max)
  then have 3: "f32_ok (default_r_max snap)"
    by (simp add: default_r_max_def f32_ok_half f32_ok_nextafter)
  from assms(5) have mp: "0 < mant ?m" by (simp add: f32_val_pos_iff)
  from nextafter_half_lt[OF this]
  have 4: "f32_val (default_r_max snap) < f32_val ?m / 2"
    by (simp add: default_r_max_def)
  have 5: "f32_val y \<le> f32_val (default_r_max snap)"
    if n: "- 149 < expo ?m" and y: "f32_ok y" "f32_val y < f32_val ?m / 2" for y
  proof -
    have "f32_half ?m = ?m\<lparr>expo := expo ?m - 1\<rparr>" using n by (simp add: f32_half_def)
    then have "0 < mant (f32_half ?m)" using mp by simp
    moreover have "f32_val y < f32_val (f32_half ?m)" using y(2) by (simp add: f32_val_half[OF n])
    ultimately show ?thesis
      using nextafter_zero_adjacent[of "f32_half ?m" y] f32_ok_half[OF okm] y(1)
      by (simp add: default_r_max_def)
  qed
  from 1 3 4 5 show ?thesis by (simp add: f32_val_largest_edge)
qed

text \<open>
  For the edges 10, 20 and 30 the default radius is \<open>15728639 / 2\<^sup>2\<^sup>0\<close>, just below 15, and
  the single-precision number 10 is not above it.
\<close>

theorem default_r_max_half_largest_witness:
  "f32_val (default_r_max slab_frame) < 15
   \<and> f32_val (default_r_max slab_frame) = 15728639 / 1048576
   \<and> f32_val f32_10 \<le> f32_val (default_r_max slab_frame)
   \<and> f32_ok (default_r_max slab_frame)"
proof -
  have a: "f32_ok (Lx (box slab_frame))" "f32_ok (Ly (box slab_frame))"
    "f32_ok (Lz (box slab_frame))" "0 < f32_val (largest_edge slab_frame)"
    by code_simp+
  have b: "f32_val (largest_edge slab_frame) / 2 = 15" "- 149 < expo (largest_edge slab_frame)"
    by code_simp+
  have c: "f32_val (default_r_max slab_frame) = 15728639 / 1048576"
    by code_simp
  have d: "f32_ok f32_10" "f32_val f32_10 < 15"
    by code_simp+
  note t = default_r_max_half_largest[of "[slab_frame]" slab_frame "[]" demo_freud "''A''" "''A''"
      0 None 0 10 True, OF refl a]
  from t have 1: "f32_val (default_r_max slab_frame) < f32_val (largest_edge slab_frame) / 2"
    and 2: "f32_ok (default_r_max slab_frame)" by blast+
  from t b(2) d have 3: "f32_val f32_10 \<le> f32_val (default_r_max slab_frame)"
    by (simp add: b(1))
  from 1 2 3 c show ?thesis by (simp add: b(1))
qed

text \<open>
  The claim as stated fails on a box that is not a cube: for the edges 10, 20 and 30 the
  radius used without \<open>r_max\<close> is just below 15, which is not below 5, half the smallest
  edge.
\<close>

theorem default_r_max_counterexample:
  "r_max_used slab_frame None = f32_val (default_r_max slab_frame)
   \<and> f32_val (smallest_edge slab_frame) / 2 = 5
   \<and> \<not> f32_val (default_r_max slab_frame) < f32_val (smallest_edge slab_frame) / 2"
  by code_simp

end
